theory Spec2Isabelle
  imports Complex_Main "HOL-Library.Word" "HOL-Library.AList"
begin

section \<open>The G3D script parser (g3dParser.ts)\<close>

text \<open>
  A shallow embedding of the parser of G3D scripts: \<^verbatim>\<open>parseG3D\<close> and the functions it
  calls, the expression evaluator \<^verbatim>\<open>securelyEvaluate\<close> first among them.

  Strings are HOL strings. A \<^typ>\<open>char\<close> is read as the UTF-16 code unit of the same
  number, so the model covers scripts whose code units are below 256 (Basic Latin and
  the Latin-1 supplement); \<^verbatim>\<open>length\<close> counts code units, as \<^verbatim>\<open>String.length\<close> does.

  What the parser asks of the JavaScript host (the \<^verbatim>\<open>Function\<close> constructor, number
  parsing and arithmetic on doubles, number formatting) is a parameter of the model, the
  record \<open>host\<close> below; the string and regular expression functions of the standard
  library are modelled in full for the patterns the parser uses.
\<close>

subsection \<open>Characters and strings\<close>

definition code :: "char \<Rightarrow> nat" where
  "code c = of_char c"

text \<open>\<^verbatim>\<open>\s\<close>, and what \<^verbatim>\<open>trim\<close> strips: white space and line terminators.\<close>

definition is_space :: "char \<Rightarrow> bool" where
  "is_space c = ((9 \<le> code c \<and> code c \<le> 13) \<or> code c = 32 \<or> code c = 160)"

definition is_digit :: "char \<Rightarrow> bool" where
  "is_digit c = (48 \<le> code c \<and> code c \<le> 57)"

definition is_upper :: "char \<Rightarrow> bool" where
  "is_upper c = (65 \<le> code c \<and> code c \<le> 90)"

definition is_lower :: "char \<Rightarrow> bool" where
  "is_lower c = (97 \<le> code c \<and> code c \<le> 122)"

text \<open>\<^verbatim>\<open>\w\<close>\<close>

definition is_word :: "char \<Rightarrow> bool" where
  "is_word c = (is_upper c \<or> is_lower c \<or> is_digit c \<or> c = CHR ''_'')"

text \<open>
  The letters from U+0080 to U+00FF: the upper case letters U+00C0 to U+00DE (without the
  multiplication sign U+00D7), the lower case letters U+00DF to U+00FF (without the
  division sign U+00F7), and U+00AA, U+00B5, U+00BA.
\<close>

definition is_latin1_upper :: "char \<Rightarrow> bool" where
  "is_latin1_upper c = (192 \<le> code c \<and> code c \<le> 222 \<and> code c \<noteq> 215)"

definition is_latin1_lower :: "char \<Rightarrow> bool" where
  "is_latin1_lower c = (223 \<le> code c \<and> code c \<noteq> 247)"

text \<open>The Unicode categories L and N, for code units below 256.\<close>

definition is_letter :: "char \<Rightarrow> bool" where
  "is_letter c = (is_upper c \<or> is_lower c \<or> is_latin1_upper c \<or> is_latin1_lower c
     \<or> code c = 170 \<or> code c = 181 \<or> code c = 186)"

definition is_number :: "char \<Rightarrow> bool" where
  "is_number c = (is_digit c \<or> code c = 178 \<or> code c = 179 \<or> code c = 185
     \<or> (188 \<le> code c \<and> code c \<le> 190))"

text \<open>
  The two cases of a letter are 32 apart, which is bit 5 of the code: set in the lower
  case letter, clear in the upper case letter.

  \<^verbatim>\<open>toLowerCase\<close> maps character by character below 256. \<^verbatim>\<open>toUpperCase\<close> maps U+00DF
  to \<^verbatim>\<open>SS\<close>; the upper case forms of U+00B5 and U+00FF lie above 255 and the model leaves
  these two characters as they are (neither form is an ASCII character).
\<close>

definition with_bit5 :: "bool \<Rightarrow> char \<Rightarrow> char" where
  "with_bit5 b c = (case c of Char b0 b1 b2 b3 b4 b5 b6 b7 \<Rightarrow> Char b0 b1 b2 b3 b4 b b6 b7)"

definition lower_char :: "char \<Rightarrow> char" where
  "lower_char c = (if is_upper c \<or> is_latin1_upper c then with_bit5 True c else c)"

definition upper_char :: "char \<Rightarrow> string" where
  "upper_char c =
     (if is_lower c \<or> (is_latin1_lower c \<and> code c \<noteq> 223 \<and> code c \<noteq> 255) then [with_bit5 False c]
      else if code c = 223 then ''SS''
      else [c])"

definition toLowerCase :: "string \<Rightarrow> string" where
  "toLowerCase s = map lower_char s"

definition toUpperCase :: "string \<Rightarrow> string" where
  "toUpperCase s = concat (map upper_char s)"

definition trim :: "string \<Rightarrow> string" where
  "trim s = rev (dropWhile is_space (rev (dropWhile is_space s)))"

definition startsWith :: "string \<Rightarrow> string \<Rightarrow> bool" where
  "startsWith s p = (take (length p) s = p)"

fun includes_str :: "string \<Rightarrow> string \<Rightarrow> bool" where
  "includes_str [] k = (k = [])"
| "includes_str (c # cs) k = (startsWith (c # cs) k \<or> includes_str cs k)"

text \<open>\<^verbatim>\<open>s.split(sep)\<close> for a separator of one character.\<close>

fun split_char :: "char \<Rightarrow> string \<Rightarrow> string list" where
  "split_char sep [] = [[]]"
| "split_char sep (c # cs) =
     (if c = sep then [] # split_char sep cs
      else (case split_char sep cs of [] \<Rightarrow> [[c]] | x # xs \<Rightarrow> (c # x) # xs))"

text \<open>\<^verbatim>\<open>s.split(/\s+/)\<close>: the pieces between the maximal runs of white space.\<close>

function split_ws_from :: "string \<Rightarrow> string \<Rightarrow> string list" where
  "split_ws_from piece [] = [piece]"
| "split_ws_from piece (c # cs) =
     (if is_space c then piece # split_ws_from [] (dropWhile is_space cs)
      else split_ws_from (piece @ [c]) cs)"
  by pat_completeness auto
termination
  by (relation "measure (\<lambda>(piece, s). length s)")
     (auto simp: less_Suc_eq_le length_dropWhile_le)

definition split_ws :: "string \<Rightarrow> string list" where
  "split_ws s = split_ws_from [] s"

text \<open>\<^verbatim>\<open>xs[i]\<close>, which is \<^verbatim>\<open>undefined\<close> out of range.\<close>

definition at_index :: "'a list \<Rightarrow> nat \<Rightarrow> 'a option" where
  "at_index xs i = (if i < length xs then Some (xs ! i) else None)"

text \<open>
  The canonical form of a character under the flag \<^verbatim>\<open>i\<close> (without \<^verbatim>\<open>u\<close>): its upper
  case form when that is one code unit.
\<close>

definition canonicalize :: "char \<Rightarrow> char" where
  "canonicalize c = (case upper_char c of [u] \<Rightarrow> u | _ \<Rightarrow> c)"

definition char_eq :: "bool \<Rightarrow> char \<Rightarrow> char \<Rightarrow> bool" where
  "char_eq ic c d = (if ic then canonicalize c = canonicalize d else c = d)"

definition matches_at :: "bool \<Rightarrow> string \<Rightarrow> string \<Rightarrow> bool" where
  "matches_at ic pat s = (length pat \<le> length s \<and> list_all2 (char_eq ic) pat (take (length pat) s))"

text \<open>\<^verbatim>\<open>s.replace(/pat/g, rep)\<close> for a pattern of literal characters.\<close>

function replace_all :: "bool \<Rightarrow> string \<Rightarrow> string \<Rightarrow> string \<Rightarrow> string" where
  "replace_all ic pat rep [] = []"
| "replace_all ic pat rep (c # cs) =
     (if pat \<noteq> [] \<and> matches_at ic pat (c # cs)
      then rep @ replace_all ic pat rep (drop (length pat) (c # cs))
      else c # replace_all ic pat rep cs)"
  by pat_completeness auto
termination
  by (relation "measure (\<lambda>(ic, pat, rep, s). length s)") (auto simp: neq_Nil_conv)

text \<open>Decimal digits of a natural number, as \<^verbatim>\<open>String(n)\<close> prints an integer.\<close>

fun digits_of :: "nat \<Rightarrow> nat \<Rightarrow> string" where
  "digits_of base n =
     (if base < 2 \<or> n < base then [''0123456789abcdefghijklmnopqrstuvwxyz'' ! n]
      else digits_of base (n div base) @ [''0123456789abcdefghijklmnopqrstuvwxyz'' ! (n mod base)])"

declare digits_of.simps [simp del]

definition show_nat :: "nat \<Rightarrow> string" where
  "show_nat n = digits_of 10 n"

subsection \<open>Regular expressions\<close>

text \<open>
  The patterns of the parser, matched the way the host does it: a backtracking search
  that tries the alternatives in order, greedy quantifiers the longest repetition first
  and lazy ones the shortest, and returns the first match of the leftmost start.
\<close>

datatype regex =
    Eps
  | Lit char
  | Class "char \<Rightarrow> bool"
  | Dot
  | Seq regex regex
  | Alt regex regex
  | Star regex
  | Lazy regex
  | Plus regex
  | Opt regex
  | Group nat regex
  | Backref nat

type_synonym captures = "nat \<Rightarrow> string option"

text \<open>
  A state of the matcher is the rest of the input and the groups captured so far. A
  pattern maps a state to the list of the states in which a match of it can end, in the
  order in which the backtracking of the host tries them: the host returns the first.
\<close>

type_synonym mstate = "string \<times> captures"

definition class_match :: "bool \<Rightarrow> (char \<Rightarrow> bool) \<Rightarrow> char \<Rightarrow> bool" where
  "class_match ic P d = (P d \<or> (ic \<and> (P (canonicalize d) \<or> P (lower_char d))))"

definition line_terminator :: "char \<Rightarrow> bool" where
  "line_terminator c = (c = CHR 0x0A \<or> c = CHR 0x0D)"

definition one_char :: "(char \<Rightarrow> bool) \<Rightarrow> mstate \<Rightarrow> mstate list" where
  "one_char P st = (case fst st of [] \<Rightarrow> [] | d # ds \<Rightarrow> if P d then [(ds, snd st)] else [])"

definition progress :: "mstate \<Rightarrow> mstate list \<Rightarrow> mstate list" where
  "progress st sts = filter (\<lambda>st'. length (fst st') < length (fst st)) sts"

text \<open>
  A repetition runs at most one iteration per remaining character: an iteration that
  consumes nothing is rejected, as the repeat matcher of the host does. A greedy
  repetition tries one more iteration before it tries to stop, a lazy one stops first.
\<close>

fun repeat_greedy :: "(mstate \<Rightarrow> mstate list) \<Rightarrow> nat \<Rightarrow> mstate \<Rightarrow> mstate list" where
  "repeat_greedy m 0 st = [st]"
| "repeat_greedy m (Suc n) st = concat (map (repeat_greedy m n) (progress st (m st))) @ [st]"

fun repeat_lazy :: "(mstate \<Rightarrow> mstate list) \<Rightarrow> nat \<Rightarrow> mstate \<Rightarrow> mstate list" where
  "repeat_lazy m 0 st = [st]"
| "repeat_lazy m (Suc n) st = st # concat (map (repeat_lazy m n) (progress st (m st)))"

definition capture :: "nat \<Rightarrow> mstate \<Rightarrow> mstate \<Rightarrow> mstate" where
  "capture i st st' =
     (fst st', (snd st')(i \<mapsto> take (length (fst st) - length (fst st')) (fst st)))"

primrec rmatch :: "bool \<Rightarrow> regex \<Rightarrow> mstate \<Rightarrow> mstate list" where
  "rmatch ic Eps = (\<lambda>st. [st])"
| "rmatch ic (Lit c) = one_char (char_eq ic c)"
| "rmatch ic (Class P) = one_char (class_match ic P)"
| "rmatch ic Dot = one_char (\<lambda>d. \<not> line_terminator d)"
| "rmatch ic (Seq r s) = (\<lambda>st. concat (map (rmatch ic s) (rmatch ic r st)))"
| "rmatch ic (Alt r s) = (\<lambda>st. rmatch ic r st @ rmatch ic s st)"
| "rmatch ic (Star r) = (\<lambda>st. repeat_greedy (rmatch ic r) (length (fst st)) st)"
| "rmatch ic (Lazy r) = (\<lambda>st. repeat_lazy (rmatch ic r) (length (fst st)) st)"
| "rmatch ic (Plus r) = (\<lambda>st. concat (map (\<lambda>st'. repeat_greedy (rmatch ic r) (length (fst st')) st')
                                        (rmatch ic r st)))"
| "rmatch ic (Opt r) = (\<lambda>st. progress st (rmatch ic r st) @ [st])"
| "rmatch ic (Group i r) = (\<lambda>st. map (capture i st) (rmatch ic r st))"
| "rmatch ic (Backref i) = (\<lambda>st. case snd st i of None \<Rightarrow> [st]
     | Some t \<Rightarrow> if matches_at ic t (fst st) then [(drop (length t) (fst st), snd st)] else [])"

text \<open>\<^verbatim>\<open>s.match(re)\<close> without the flag \<^verbatim>\<open>g\<close>: group 0 is the whole match.\<close>

fun re_match :: "bool \<Rightarrow> regex \<Rightarrow> string \<Rightarrow> captures option" where
  "re_match ic r [] =
     (case rmatch ic (Group 0 r) ([], Map.empty) of [] \<Rightarrow> None | st # _ \<Rightarrow> Some (snd st))"
| "re_match ic r (c # cs) =
     (case rmatch ic (Group 0 r) (c # cs, Map.empty) of
        [] \<Rightarrow> re_match ic r cs
      | st # _ \<Rightarrow> Some (snd st))"

text \<open>A group of a match; every group of the parser's patterns takes part in every match.\<close>

definition group :: "captures \<Rightarrow> nat \<Rightarrow> string" where
  "group m i = (case m i of Some s \<Rightarrow> s | None \<Rightarrow> [])"

definition cat :: "regex list \<Rightarrow> regex" where
  "cat rs = foldr Seq rs Eps"

definition word :: "string \<Rightarrow> regex" where
  "word s = cat (map Lit s)"

subsection \<open>Values, objects and the host\<close>

text \<open>
  The two kinds of function value that the parser itself creates: the entry \<^verbatim>\<open>STR\<close> of
  the built-in table, \<^verbatim>\<open>(v) => v.toFixed(2)\<close>, and the function \<^verbatim>\<open>func\<close> that
  \<^verbatim>\<open>parseFunctionDefinition\<close> registers, which holds the argument names and the body text.
\<close>

datatype closure = StrClosure | FuncClosure "string list" string

datatype 'n jsval =
    Num 'n
  | Str string
  | Bool bool
  | Undefined
  | Builtin string
  | Closure closure
  | Object nat

text \<open>
  An object used as a dictionary is the list of its properties in insertion order, with
  one entry per key. The host enumerates the keys that are array indices first, in
  ascending order, and then the other keys in insertion order.
\<close>

type_synonym 'v object = "(string \<times> 'v) list"

definition nat_of_digits :: "string \<Rightarrow> nat" where
  "nat_of_digits k = foldl (\<lambda>n c. 10 * n + (code c - 48)) 0 k"

definition is_array_index :: "string \<Rightarrow> bool" where
  "is_array_index k = (k \<noteq> [] \<and> list_all is_digit k \<and> (k = ''0'' \<or> take 1 k \<noteq> ''0'')
     \<and> nat_of_digits k < 4294967295)"

definition object_entries :: "'v object \<Rightarrow> 'v object" where
  "object_entries obj =
     sort_key (\<lambda>p. nat_of_digits (fst p)) (filter (\<lambda>p. is_array_index (fst p)) obj)
     @ filter (\<lambda>p. \<not> is_array_index (fst p)) obj"

definition Object_keys :: "'v object \<Rightarrow> string list" where
  "Object_keys obj = map fst (object_entries obj)"

definition Object_values :: "'v object \<Rightarrow> 'v list" where
  "Object_values obj = map snd (object_entries obj)"

text \<open>\<^verbatim>\<open>obj[k] = v\<close> is \<^const>\<open>AList.update\<close>; \<^verbatim>\<open>{...a, ...b}\<close> copies \<open>a\<close> and then sets the properties of \<open>b\<close>.\<close>

definition spread :: "'v object \<Rightarrow> 'v object \<Rightarrow> 'v object" where
  "spread a b = fold (\<lambda>p. AList.update (fst p) (snd p)) b a"

text \<open>
  The host. \<open>hFunction h g invoke names body values\<close> is
  \<^verbatim>\<open>new Function(...names, body)(...values)\<close>: \<open>Inl\<close> carries the message of the exception
  that the construction or the call throws. Its first argument \<open>g\<close> is the ambient state of
  the host (the global object), its second is how the host calls a function value that
  the parser created. The numbers of the host are the type \<open>'n\<close>.
\<close>

record ('n, 'g) host =
  hFunction :: "'g \<Rightarrow> (closure \<Rightarrow> 'n jsval list \<Rightarrow> string + 'n jsval)
                 \<Rightarrow> string list \<Rightarrow> string \<Rightarrow> 'n jsval list \<Rightarrow> string + 'n jsval"
  hIsFinite :: "'n \<Rightarrow> bool"
  hNumber :: "nat \<Rightarrow> 'n"
  hParseFloat :: "string \<Rightarrow> 'n"
  hAdd :: "'n \<Rightarrow> 'n \<Rightarrow> 'n"
  hLessEq :: "'n \<Rightarrow> 'n \<Rightarrow> bool"
  hDivide :: "'n \<Rightarrow> 'n \<Rightarrow> 'n"
  hToFixed :: "'n \<Rightarrow> nat \<Rightarrow> string"
  hNumberToString :: "'n \<Rightarrow> string"
  hString :: "'n jsval \<Rightarrow> string + string"
  hNoMethod :: "'n jsval \<Rightarrow> string"
  hPI :: 'n
  hE :: 'n

text \<open>\<^verbatim>\<open>String(v)\<close>\<close>

definition String_of :: "('n, 'g) host \<Rightarrow> 'n jsval \<Rightarrow> string + string" where
  "String_of h v = (case v of Str s \<Rightarrow> Inr s | _ \<Rightarrow> hString h v)"

subsection \<open>The expression evaluator\<close>

definition quote :: string where
  "quote = [CHR 0x22]"

text \<open>
  \<^verbatim>\<open>SAFE_EXPRESSION_REGEX\<close>: one or more characters of the class, from the start of the
  expression to its end. The model reads each escaped character of the class as itself;
  the range U+2070 to U+209F lies above the characters of the model.
\<close>

definition safe_char :: "char \<Rightarrow> bool" where
  "safe_char c = (is_letter c \<or> is_number c \<or> is_space c
     \<or> c \<in> set ''+-*/^().,_<>=&|!?:[]'' \<or> c = CHR 0x27 \<or> c = CHR 0x22
     \<or> c = CHR 0xB2 \<or> c = CHR 0xB3)"

definition SAFE_EXPRESSION_REGEX_test :: "string \<Rightarrow> bool" where
  "SAFE_EXPRESSION_REGEX_test expr = (expr \<noteq> [] \<and> list_all safe_char expr)"

definition FORBIDDEN_KEYWORDS :: "string list" where
  "FORBIDDEN_KEYWORDS =
     [''window'', ''document'', ''alert'', ''eval'', ''function'',
      ''constructor'', ''prototype'', ''__proto__'', ''import'', ''export'',
      ''this'', ''self'', '';'', ''{'', ''}'', ''=>'', ''`'']"

definition MAX_LOOP_ITERATIONS :: nat where
  "MAX_LOOP_ITERATIONS = 10000"

definition MAX_SCRIPT_SIZE :: nat where
  "MAX_SCRIPT_SIZE = 50000"

definition MAX_EXPR_LENGTH :: nat where
  "MAX_EXPR_LENGTH = 60"

definition jsifyExpression :: "string \<Rightarrow> string" where
  "jsifyExpression expr =
     replace_all True ''OR'' ''||''
       (replace_all True ''AND'' ''&&''
         (replace_all False ''='' ''==''
           (replace_all False ''<>'' ''!=''
             (replace_all False ''^'' ''**'' expr))))"

text \<open>\<^verbatim>\<open>/(\w+)\s+is not defined/\<close>\<close>

definition not_defined_regex :: regex where
  "not_defined_regex = cat [Group 1 (Plus (Class is_word)), Plus (Class is_space), word ''is not defined'']"

definition invalid_characters :: string where
  "invalid_characters = ''Expression contains invalid characters.''"

definition forbidden_keyword :: "string \<Rightarrow> string" where
  "forbidden_keyword keyword = ''Expression contains forbidden keyword: '' @ keyword"

definition failed_to_evaluate :: "string \<Rightarrow> string \<Rightarrow> string" where
  "failed_to_evaluate expr e_message =
     (let message = (case re_match False not_defined_regex e_message of
                       Some m \<Rightarrow> group m 1 @ '' is not defined''
                     | None \<Rightarrow> e_message);
          displayExpr = (if length expr > MAX_EXPR_LENGTH
                         then take MAX_EXPR_LENGTH expr @ ''...'' else expr)
      in ''Failed to evaluate: '' @ quote @ displayExpr @ quote @ '' - '' @ message)"

text \<open>
  \<open>securelyEvaluate h g invoke expr context\<close>: \<open>Inl\<close> carries the message of the
  \<^verbatim>\<open>Error\<close> that the function throws.
\<close>

definition securelyEvaluate ::
  "('n, 'g) host \<Rightarrow> 'g \<Rightarrow> (closure \<Rightarrow> 'n jsval list \<Rightarrow> string + 'n jsval)
     \<Rightarrow> string \<Rightarrow> 'n jsval object \<Rightarrow> string + 'n jsval" where
  "securelyEvaluate h g invoke expr context =
     (if \<not> SAFE_EXPRESSION_REGEX_test expr then Inl invalid_characters
      else case find (includes_str (toLowerCase expr)) FORBIDDEN_KEYWORDS of
        Some keyword \<Rightarrow> Inl (forbidden_keyword keyword)
      | None \<Rightarrow>
          (let contextNames = Object_keys context;
               contextValues = Object_values context;
               jsExpr = jsifyExpression expr
           in case hFunction h g invoke contextNames (''return '' @ jsExpr) contextValues of
                Inr result \<Rightarrow>
                  (case result of
                     Num n \<Rightarrow> if \<not> hIsFinite h n then Inr (Num (hNumber h 0)) else Inr result
                   | _ \<Rightarrow> Inr result)
              | Inl e_message \<Rightarrow> Inl (failed_to_evaluate expr e_message)))"

text \<open>
  The function \<^verbatim>\<open>func\<close> of \<^verbatim>\<open>parseFunctionDefinition\<close>, called with \<open>argValues\<close>: it binds
  the argument names and evaluates the body text over the table \<open>allFuncs\<close>, which is
  \<^verbatim>\<open>state.functions\<close> at the time of the call. \<open>depth\<close> is the number of nested calls that
  the stack of the host still admits; the host throws a \<^verbatim>\<open>RangeError\<close> beyond it.
\<close>

definition bind_args :: "string list \<Rightarrow> 'n jsval list \<Rightarrow> 'n jsval object" where
  "bind_args args argValues =
     foldl (\<lambda>acc p. AList.update (fst p)
              (case at_index argValues (snd p) of Some v \<Rightarrow> v | None \<Rightarrow> Undefined) acc)
       [] (zip args [0..<length args])"

primrec call_closure ::
  "('n, 'g) host \<Rightarrow> 'g \<Rightarrow> 'n jsval object \<Rightarrow> nat \<Rightarrow> closure \<Rightarrow> 'n jsval list \<Rightarrow> string + 'n jsval" where
  "call_closure h g allFuncs 0 = (\<lambda>c argValues. Inl ''Maximum call stack size exceeded'')"
| "call_closure h g allFuncs (Suc depth) = (\<lambda>c argValues.
     case c of
       StrClosure \<Rightarrow>
         (case at_index argValues 0 of
            Some (Num n) \<Rightarrow> Inr (Str (hToFixed h n 2))
          | Some v \<Rightarrow> Inl (hNoMethod h v)
          | None \<Rightarrow> Inl (hNoMethod h Undefined))
     | FuncClosure args body \<Rightarrow>
         securelyEvaluate h g (call_closure h g allFuncs depth) body
           (spread allFuncs (bind_args args argValues)))"

text \<open>An evaluation that the parser starts, with \<^verbatim>\<open>state.functions\<close> being \<open>funcs\<close>.\<close>

definition evaluate ::
  "('n, 'g) host \<Rightarrow> 'g \<Rightarrow> nat \<Rightarrow> 'n jsval object \<Rightarrow> string \<Rightarrow> 'n jsval object \<Rightarrow> string + 'n jsval" where
  "evaluate h g depth funcs expr context =
     securelyEvaluate h g (call_closure h g funcs depth) expr context"

subsection \<open>Parser state and commands\<close>

datatype 'a point = Point 'a 'a 'a

datatype 'n color = Color 'n 'n 'n

text \<open>
  The function of a \<^verbatim>\<open>PLOT3D\<close> command holds \<^verbatim>\<open>usesN\<close>, the body text of the function
  being plotted and the function value registered for it at that moment.
\<close>

datatype 'n plot_func = PlotFunc bool string "'n jsval"

datatype 'n command =
    PLOT3D "'n plot_func" string bool nat
  | CIRCLE3D "'n point" 'n "'n color" nat
  | TEXT "'n jsval point" string nat
  | PLOT_POINT3D "'n jsval point" "'n color" 'n nat
  | SET_VIEW 'n 'n nat
  | SET_GRID bool nat
  | SET_AXES bool nat

record G3DError =
  err_line :: nat
  err_message :: string

record 'n ParserState =
  functions_tab :: "'n jsval object"
  functionBodies :: "(string list \<times> string) object"
  errors :: "G3DError list"
  commands :: "'n command list"

record 'n Scene =
  scene_commands :: "'n command list"
  scene_errors :: "G3DError list option"

definition builtin_functions :: "('n, 'g) host \<Rightarrow> 'n jsval object" where
  "builtin_functions h =
     [(''SIN'', Builtin ''sin''), (''COS'', Builtin ''cos''), (''TAN'', Builtin ''tan''),
      (''ASIN'', Builtin ''asin''), (''ACOS'', Builtin ''acos''), (''ATAN'', Builtin ''atan''),
      (''SINH'', Builtin ''sinh''), (''COSH'', Builtin ''cosh''), (''TANH'', Builtin ''tanh''),
      (''ABS'', Builtin ''abs''), (''SQRT'', Builtin ''sqrt''), (''POW'', Builtin ''pow''),
      (''EXP'', Builtin ''exp''), (''LOG'', Builtin ''log''), (''LOG10'', Builtin ''log10''),
      (''CEIL'', Builtin ''ceil''), (''FLOOR'', Builtin ''floor''), (''ROUND'', Builtin ''round''),
      (''MIN'', Builtin ''min''), (''MAX'', Builtin ''max''),
      (''STR'', Closure StrClosure),
      (''INT'', Builtin ''trunc''),
      (''PI'', Num (hPI h)),
      (''E'', Num (hE h))]"

definition new_ParserState :: "('n, 'g) host \<Rightarrow> 'n ParserState" where
  "new_ParserState h =
     \<lparr>functions_tab = builtin_functions h, functionBodies = [], errors = [], commands = []\<rparr>"

definition addError :: "'n ParserState \<Rightarrow> nat \<Rightarrow> string \<Rightarrow> 'n ParserState" where
  "addError state lineNo msg =
     state\<lparr>errors := errors state @ [\<lparr>err_line = lineNo, err_message = msg\<rparr>]\<rparr>"

definition push_command :: "'n ParserState \<Rightarrow> 'n command \<Rightarrow> 'n ParserState" where
  "push_command state c = state\<lparr>commands := commands state @ [c]\<rparr>"

text \<open>\<^verbatim>\<open>hashString\<close>: the hash is a 32-bit integer after every step.\<close>

definition hashString :: "string \<Rightarrow> string" where
  "hashString str =
     (let hash = foldl (\<lambda>hash c. (push_bit 5 hash - hash) + word_of_nat (code c)) (0 :: 32 word) str
      in digits_of 36 (nat \<bar>sint hash\<bar>))"

subsection \<open>The patterns of the statements\<close>

definition sp0 :: regex where
  "sp0 = Star (Class is_space)"

definition sp1 :: regex where
  "sp1 = Plus (Class is_space)"

text \<open>\<^verbatim>\<open>(FN[A-Z0-9]+)\<close> as group \<open>i\<close>\<close>

definition fn_name :: "nat \<Rightarrow> regex" where
  "fn_name i = Group i (Seq (word ''FN'') (Plus (Class (\<lambda>c. is_upper c \<or> is_digit c))))"

text \<open>\<^verbatim>\<open>([-\d.]+)\<close>, \<^verbatim>\<open>([\d]+)\<close>, \<^verbatim>\<open>([\d.]+)\<close> and \<^verbatim>\<open>([-\d.eE]+)\<close> as group \<open>i\<close>\<close>

definition signed_number :: "nat \<Rightarrow> regex" where
  "signed_number i = Group i (Plus (Class (\<lambda>c. c = CHR ''-'' \<or> is_digit c \<or> c = CHR ''.'')))"

definition digits :: "nat \<Rightarrow> regex" where
  "digits i = Group i (Plus (Class is_digit))"

definition unsigned_number :: "nat \<Rightarrow> regex" where
  "unsigned_number i = Group i (Plus (Class (\<lambda>c. is_digit c \<or> c = CHR ''.'')))"

definition float_number :: "nat \<Rightarrow> regex" where
  "float_number i = Group i (Plus (Class (\<lambda>c. c = CHR ''-'' \<or> is_digit c \<or> c = CHR ''.''
     \<or> c = CHR ''e'' \<or> c = CHR ''E'')))"

text \<open>\<^verbatim>\<open>/DEF\s+(FN[A-Z0-9]+)\((.*?)\)\s*=\s*(.*)/i\<close>\<close>

definition simpleDef_regex :: regex where
  "simpleDef_regex = cat [word ''DEF'', sp1, fn_name 1, Lit CHR ''('', Group 2 (Lazy Dot),
     Lit CHR '')'', sp0, Lit CHR ''='', sp0, Group 3 (Star Dot)]"

text \<open>\<^verbatim>\<open>/(FN[A-Z0-9]+)\s*=\s*\1\s*\+\s*(.*)/i\<close>\<close>

definition continuation_regex :: regex where
  "continuation_regex = cat [fn_name 1, sp0, Lit CHR ''='', sp0, Backref 1, sp0, Lit CHR ''+'',
     sp0, Group 2 (Star Dot)]"

text \<open>\<^verbatim>\<open>/PLOT3D\s+(FN[A-Z0-9]+)\(X,Y\)/i\<close>\<close>

definition plot3d_regex :: regex where
  "plot3d_regex = cat [word ''PLOT3D'', sp1, fn_name 1, word ''(X,Y)'']"

text \<open>\<^verbatim>\<open>/CIRCLE3D\s+([-\d.]+),\s*([-\d.]+),\s*([-\d.]+)\s+WITH\s+RADIUS\s+([-\d.]+)\s+COLOR\s+([\d]+),\s*([\d]+),\s*([\d]+)/i\<close>\<close>

definition circle3d_regex :: regex where
  "circle3d_regex = cat [word ''CIRCLE3D'', sp1, signed_number 1, Lit CHR '','', sp0,
     signed_number 2, Lit CHR '','', sp0, signed_number 3, sp1, word ''WITH'', sp1,
     word ''RADIUS'', sp1, signed_number 4, sp1, word ''COLOR'', sp1,
     digits 5, Lit CHR '','', sp0, digits 6, Lit CHR '','', sp0, digits 7]"

text \<open>\<^verbatim>\<open>/(?:TEXT|LABEL)\s+AT\s+(.*?)\s+(?:TEXT)?\s*"(.*)"/i\<close>\<close>

definition text_regex :: regex where
  "text_regex = cat [Alt (word ''TEXT'') (word ''LABEL''), sp1, word ''AT'', sp1,
     Group 1 (Lazy Dot), sp1, Opt (word ''TEXT''), sp0, Lit (CHR 0x22), Group 2 (Star Dot),
     Lit (CHR 0x22)]"

text \<open>\<^verbatim>\<open>/PLOT\s+POINT3D\s+(.*?)\s+COLOR\s+([\d]+),\s*([\d]+),\s*([\d]+)\s+SIZE\s+([\d.]+)/i\<close>\<close>

definition plot_point3d_regex :: regex where
  "plot_point3d_regex = cat [word ''PLOT'', sp1, word ''POINT3D'', sp1, Group 1 (Lazy Dot), sp1,
     word ''COLOR'', sp1, digits 2, Lit CHR '','', sp0, digits 3, Lit CHR '','', sp0, digits 4,
     sp1, word ''SIZE'', sp1, unsigned_number 5]"

text \<open>\<^verbatim>\<open>/FOR\s+(\w+)\s*=\s*([-\d.eE]+)\s+TO\s+([-\d.eE]+)\s+STEP\s+([-\d.eE]+)/i\<close>\<close>

definition for_regex :: regex where
  "for_regex = cat [word ''FOR'', sp1, Group 1 (Plus (Class is_word)), sp0, Lit CHR ''='', sp0,
     float_number 2, sp1, word ''TO'', sp1, float_number 3, sp1, word ''STEP'', sp1,
     float_number 4]"

text \<open>\<^verbatim>\<open>/SET\s+VIEW\s+ANGLE\s+([-\d.]+),\s*([-\d.]+)/i\<close>\<close>

definition set_view_regex :: regex where
  "set_view_regex = cat [word ''SET'', sp1, word ''VIEW'', sp1, word ''ANGLE'', sp1,
     signed_number 1, Lit CHR '','', sp0, signed_number 2]"

text \<open>\<^verbatim>\<open>/SET\s+GRID\s+(ON|OFF)/i\<close> and \<^verbatim>\<open>/SET\s+AXES\s+(ON|OFF)/i\<close>\<close>

definition set_grid_regex :: regex where
  "set_grid_regex = cat [word ''SET'', sp1, word ''GRID'', sp1,
     Group 1 (Alt (word ''ON'') (word ''OFF''))]"

definition set_axes_regex :: regex where
  "set_axes_regex = cat [word ''SET'', sp1, word ''AXES'', sp1,
     Group 1 (Alt (word ''ON'') (word ''OFF''))]"

text \<open>\<^verbatim>\<open>/G_VALUE\s*=\s*(.*)/i\<close>\<close>

definition g_value_regex :: regex where
  "g_value_regex = cat [word ''G_VALUE'', sp0, Lit CHR ''='', sp0, Group 1 (Star Dot)]"

text \<open>\<^verbatim>\<open>/\bn\b/i.test(body)\<close>: an \<^verbatim>\<open>n\<close> with no word character on either side.\<close>

fun word_n_from :: "bool \<Rightarrow> string \<Rightarrow> bool" where
  "word_n_from prev [] = False"
| "word_n_from prev (c # cs) =
     ((\<not> prev \<and> (c = CHR ''n'' \<or> c = CHR ''N'')
        \<and> (case cs of [] \<Rightarrow> True | d # _ \<Rightarrow> \<not> is_word d))
      \<or> word_n_from (is_word c) cs)"

definition uses_n :: "string \<Rightarrow> bool" where
  "uses_n body = word_n_from False body"

text \<open>\<^verbatim>\<open>line.replace(/^(\d+)\s+/, '')\<close>\<close>

definition strip_label :: "string \<Rightarrow> string" where
  "strip_label s =
     (case rmatch False (Seq (Group 1 (Plus (Class is_digit))) sp1) (s, Map.empty) of
        [] \<Rightarrow> s
      | st # _ \<Rightarrow> fst st)"

definition first_piece :: "char \<Rightarrow> string \<Rightarrow> string" where
  "first_piece sep s = (case split_char sep s of [] \<Rightarrow> [] | x # _ \<Rightarrow> x)"

subsection \<open>The statement parsers\<close>

definition define_function ::
  "'n ParserState \<Rightarrow> string \<Rightarrow> string list \<Rightarrow> string \<Rightarrow> 'n ParserState" where
  "define_function state funcName args body =
     state\<lparr>functionBodies := AList.update funcName (args, body) (functionBodies state),
           functions_tab := AList.update funcName (Closure (FuncClosure args body)) (functions_tab state)\<rparr>"

text \<open>
  \<^verbatim>\<open>parseFunctionDefinition\<close>. Nothing in the \<^verbatim>\<open>try\<close> block that creates \<^verbatim>\<open>func\<close> throws,
  so its handler has no branch here.
\<close>

definition parseFunctionDefinition :: "string \<Rightarrow> 'n ParserState \<Rightarrow> nat \<Rightarrow> 'n ParserState" where
  "parseFunctionDefinition line state lineNumber =
     (case re_match True simpleDef_regex line of
        Some m \<Rightarrow>
          define_function state (toUpperCase (group m 1))
            (filter (\<lambda>s. s \<noteq> []) (map (\<lambda>s. toUpperCase (trim s)) (split_char CHR '','' (group m 2))))
            (group m 3)
      | None \<Rightarrow>
          (case re_match True continuation_regex line of
             Some m \<Rightarrow>
               (let funcName = toUpperCase (group m 1);
                    addition = group m 2
                in case map_of (functionBodies state) funcName of
                     None \<Rightarrow> addError state lineNumber
                       (''Function '' @ funcName @ '' not defined before continuation.'')
                   | Some oldBodyData \<Rightarrow>
                       define_function state funcName (fst oldBodyData)
                         (''('' @ snd oldBodyData @ '') + ('' @ addition @ '')''))
           | None \<Rightarrow> addError state lineNumber ''Invalid function definition syntax.''))"

definition is_function :: "'n jsval \<Rightarrow> bool" where
  "is_function v = (case v of Builtin _ \<Rightarrow> True | Closure _ \<Rightarrow> True | _ \<Rightarrow> False)"

definition parsePlot3D :: "string \<Rightarrow> 'n ParserState \<Rightarrow> nat \<Rightarrow> 'n ParserState" where
  "parsePlot3D line state lineNumber =
     (case re_match True plot3d_regex line of
        Some m \<Rightarrow>
          (let funcName = toUpperCase (group m 1);
               not_defined = addError state lineNumber
                 (''Function '' @ funcName @ '' not defined for PLOT3D.'')
           in case map_of (functions_tab state) funcName of
                None \<Rightarrow> not_defined
              | Some func \<Rightarrow>
                  (case map_of (functionBodies state) funcName of
                     None \<Rightarrow> not_defined
                   | Some funcBody \<Rightarrow>
                       if is_function func
                       then (let funcHash = hashString (snd funcBody);
                                 usesN = uses_n (snd funcBody)
                             in push_command state
                                  (PLOT3D (PlotFunc usesN (snd funcBody) func) funcHash usesN lineNumber))
                       else not_defined))
      | None \<Rightarrow> addError state lineNumber ''Invalid PLOT3D syntax.'')"

text \<open>
  The function of a \<^verbatim>\<open>PLOT3D\<close> command, called with \<open>x\<close>, \<open>y\<close> and \<open>n\<close> when
  \<^verbatim>\<open>state.functions\<close> is \<open>funcs\<close>; an exception of the evaluation is not caught there.
\<close>

definition plot_func_call ::
  "('n, 'g) host \<Rightarrow> 'g \<Rightarrow> nat \<Rightarrow> 'n jsval object \<Rightarrow> 'n plot_func \<Rightarrow> 'n \<Rightarrow> 'n \<Rightarrow> 'n \<Rightarrow> string + 'n" where
  "plot_func_call h g depth funcs pf x y n =
     (case pf of PlotFunc usesN body func \<Rightarrow>
        (case (if usesN
               then evaluate h g depth funcs body
                      (spread funcs [(''X'', Num x), (''Y'', Num y), (''N'', Num n)])
               else (case func of
                       Closure c \<Rightarrow> call_closure h g funcs depth c [Num x, Num y]
                     | _ \<Rightarrow> hFunction h g (call_closure h g funcs depth) [''func'', ''x'', ''y'']
                              ''return func(x, y)'' [func, Num x, Num y])) of
           Inl e \<Rightarrow> Inl e
         | Inr (Num r) \<Rightarrow> Inr (if hIsFinite h r then r else hNumber h 0)
         | Inr _ \<Rightarrow> Inr (hNumber h 0)))"

definition parseCircle3D :: "('n, 'g) host \<Rightarrow> string \<Rightarrow> 'n ParserState \<Rightarrow> nat \<Rightarrow> 'n ParserState" where
  "parseCircle3D h line state lineNumber =
     (case re_match True circle3d_regex line of
        Some m \<Rightarrow>
          (let x = hParseFloat h (group m 1); y = hParseFloat h (group m 2);
               z = hParseFloat h (group m 3); radius = hParseFloat h (group m 4);
               r = hParseFloat h (group m 5); g = hParseFloat h (group m 6);
               b = hParseFloat h (group m 7)
           in push_command state
                (CIRCLE3D (Point x y z) radius
                   (Color (hDivide h r (hNumber h 255)) (hDivide h g (hNumber h 255))
                      (hDivide h b (hNumber h 255)))
                   lineNumber))
      | None \<Rightarrow> addError state lineNumber ''Invalid CIRCLE3D syntax.'')"

definition parseText ::
  "('n, 'g) host \<Rightarrow> 'g \<Rightarrow> nat \<Rightarrow> string \<Rightarrow> 'n ParserState \<Rightarrow> nat \<Rightarrow> 'n jsval object \<Rightarrow> 'n ParserState" where
  "parseText h g depth line state lineNumber scope =
     (case re_match True text_regex line of
        Some m \<Rightarrow>
          (let posStr = group m 1;
               textExpr = group m 2;
               posParts = map trim (split_char CHR '','' posStr)
           in if length posParts \<noteq> 3
              then addError state lineNumber ''TEXT/LABEL AT requires 3 coordinates.''
              else
                (let context = spread (functions_tab state) scope;
                     eval = (\<lambda>e. evaluate h g depth (functions_tab state) e context)
                 in case eval (posParts ! 0) of Inl e \<Rightarrow> addError state lineNumber e | Inr x \<Rightarrow>
                   (case eval (posParts ! 1) of Inl e \<Rightarrow> addError state lineNumber e | Inr y \<Rightarrow>
                   (case eval (posParts ! 2) of Inl e \<Rightarrow> addError state lineNumber e | Inr z \<Rightarrow>
                   (case eval (quote @ textExpr @ quote) of Inl e \<Rightarrow> addError state lineNumber e | Inr text \<Rightarrow>
                   (case String_of h text of Inl e \<Rightarrow> addError state lineNumber e | Inr t \<Rightarrow>
                      push_command state (TEXT (Point x y z) t lineNumber)))))))
      | None \<Rightarrow> addError state lineNumber ''Invalid TEXT/LABEL AT syntax.'')"

definition parsePlotPoint3D ::
  "('n, 'g) host \<Rightarrow> 'g \<Rightarrow> nat \<Rightarrow> string \<Rightarrow> 'n ParserState \<Rightarrow> nat \<Rightarrow> 'n jsval object \<Rightarrow> 'n ParserState" where
  "parsePlotPoint3D h g depth line state lineNumber scope =
     (case re_match True plot_point3d_regex line of
        Some m \<Rightarrow>
          (let posStr = group m 1; r = group m 2; g' = group m 3; b = group m 4; size' = group m 5;
               posParts = map trim (split_char CHR '','' posStr)
           in if length posParts \<noteq> 3
              then addError state lineNumber ''PLOT POINT3D requires 3 coordinates.''
              else
                (let context = spread (functions_tab state) scope;
                     eval = (\<lambda>e. evaluate h g depth (functions_tab state) e context)
                 in case eval (posParts ! 0) of Inl e \<Rightarrow> addError state lineNumber e | Inr x \<Rightarrow>
                   (case eval (posParts ! 1) of Inl e \<Rightarrow> addError state lineNumber e | Inr y \<Rightarrow>
                   (case eval (posParts ! 2) of Inl e \<Rightarrow> addError state lineNumber e | Inr z \<Rightarrow>
                      push_command state
                        (PLOT_POINT3D (Point x y z)
                           (Color (hDivide h (hParseFloat h r) (hNumber h 255))
                              (hDivide h (hParseFloat h g') (hNumber h 255))
                              (hDivide h (hParseFloat h b) (hNumber h 255)))
                           (hParseFloat h size') lineNumber)))))
      | None \<Rightarrow> addError state lineNumber ''Invalid PLOT POINT3D syntax.'')"

record 'n ForLoop =
  loop_variable :: string
  loop_start :: 'n
  loop_end :: 'n
  loop_step :: 'n

text \<open>\<^verbatim>\<open>parseFor\<close> returns the loop, or \<^verbatim>\<open>null\<close> after it has recorded the error.\<close>

definition parseFor ::
  "('n, 'g) host \<Rightarrow> string \<Rightarrow> 'n ParserState \<Rightarrow> nat \<Rightarrow> 'n ForLoop option \<times> 'n ParserState" where
  "parseFor h line state lineNumber =
     (case re_match True for_regex line of
        Some m \<Rightarrow>
          (Some \<lparr>loop_variable = toUpperCase (group m 1), loop_start = hParseFloat h (group m 2),
                  loop_end = hParseFloat h (group m 3), loop_step = hParseFloat h (group m 4)\<rparr>,
           state)
      | None \<Rightarrow> (None, addError state lineNumber ''Invalid FOR loop syntax.''))"

definition parseSetView :: "('n, 'g) host \<Rightarrow> string \<Rightarrow> 'n ParserState \<Rightarrow> nat \<Rightarrow> 'n ParserState" where
  "parseSetView h line state lineNumber =
     (case re_match True set_view_regex line of
        Some m \<Rightarrow> push_command state
          (SET_VIEW (hParseFloat h (group m 1)) (hParseFloat h (group m 2)) lineNumber)
      | None \<Rightarrow> addError state lineNumber ''Invalid SET VIEW syntax.'')"

definition parseSetGrid :: "string \<Rightarrow> 'n ParserState \<Rightarrow> nat \<Rightarrow> 'n ParserState" where
  "parseSetGrid line state lineNumber =
     (case re_match True set_grid_regex line of
        Some m \<Rightarrow> push_command state (SET_GRID (toUpperCase (group m 1) = ''ON'') lineNumber)
      | None \<Rightarrow> addError state lineNumber ''Invalid SET GRID syntax.'')"

definition parseSetAxes :: "string \<Rightarrow> 'n ParserState \<Rightarrow> nat \<Rightarrow> 'n ParserState" where
  "parseSetAxes line state lineNumber =
     (case re_match True set_axes_regex line of
        Some m \<Rightarrow> push_command state (SET_AXES (toUpperCase (group m 1) = ''ON'') lineNumber)
      | None \<Rightarrow> addError state lineNumber ''Invalid SET AXES syntax.'')"

subsection \<open>The dispatcher and the loop\<close>

definition processLine ::
  "('n, 'g) host \<Rightarrow> 'g \<Rightarrow> nat \<Rightarrow> string \<Rightarrow> nat \<Rightarrow> 'n ParserState \<Rightarrow> 'n jsval object \<Rightarrow> 'n ParserState" where
  "processLine h g depth line lineNumber state scope =
     (let command = toUpperCase (first_piece CHR '' '' line);
          commandParts = map toUpperCase (split_ws line)
      in if command = ''DEF'' \<or> (startsWith command ''FN'' \<and> includes_str line ''='')
         then parseFunctionDefinition line state lineNumber
         else if command = ''PLOT3D'' then parsePlot3D line state lineNumber
         else if command = ''CIRCLE3D'' then parseCircle3D h line state lineNumber
         else if command = ''TEXT'' \<or> command = ''LABEL''
           then parseText h g depth line state lineNumber scope
         else if command = ''PLOT''
           then (if at_index commandParts 1 = Some ''POINT3D''
                 then parsePlotPoint3D h g depth line state lineNumber scope
                 else state)
         else if command = ''G_VALUE''
           then (case re_match True g_value_regex line of
                   Some m \<Rightarrow>
                     (case evaluate h g depth (functions_tab state) (group m 1)
                             (spread (functions_tab state) scope) of
                        Inl e \<Rightarrow> addError state lineNumber e
                      | Inr _ \<Rightarrow> state)
                 | None \<Rightarrow> state)
         else state)"

text \<open>A line of the script as the loops of \<^verbatim>\<open>parseG3D\<close> clean it.\<close>

definition clean_line :: "string \<Rightarrow> string" where
  "clean_line content = strip_label (trim (first_piece CHR '';'' content))"

text \<open>
  The scan for \<^verbatim>\<open>NEXT\<close>: the lines of the body and the lines after the \<^verbatim>\<open>NEXT\<close> line, or
  \<open>None\<close> when \<^verbatim>\<open>nextIndex\<close> stays \<^verbatim>\<open>-1\<close>.
\<close>

fun scan_body ::
  "string \<Rightarrow> (string \<times> nat) list \<Rightarrow> ((string \<times> nat) list \<times> (string \<times> nat) list) option" where
  "scan_body v [] = None"
| "scan_body v (l # ls) =
     (let innerLine = clean_line (fst l)
      in if toUpperCase innerLine = ''NEXT '' @ v then Some ([], ls)
         else (case scan_body v ls of
                 None \<Rightarrow> None
               | Some (bodyLines, rest) \<Rightarrow> Some ((innerLine, snd l) # bodyLines, rest)))"

definition run_body ::
  "('n, 'g) host \<Rightarrow> 'g \<Rightarrow> nat \<Rightarrow> (string \<times> nat) list \<Rightarrow> 'n jsval object \<Rightarrow> 'n ParserState \<Rightarrow> 'n ParserState" where
  "run_body h g depth bodyLines loopScope state =
     foldl (\<lambda>st bodyLine.
              if fst bodyLine \<noteq> [] then processLine h g depth (fst bodyLine) (snd bodyLine) st loopScope
              else st)
       state bodyLines"

definition loop_overflow_message :: "('n, 'g) host \<Rightarrow> 'n ForLoop \<Rightarrow> 'n \<Rightarrow> string" where
  "loop_overflow_message h loop val =
     ''FOR loop exceeded '' @ show_nat MAX_LOOP_ITERATIONS @ '' iterations. ''
     @ ''Current: '' @ loop_variable loop @ ''='' @ hToFixed h val 4 @ '', ''
     @ ''Range: '' @ hNumberToString h (loop_start loop) @ '' to ''
     @ hNumberToString h (loop_end loop) @ '', Step: '' @ hNumberToString h (loop_step loop)"

text \<open>
  The loop \<^verbatim>\<open>for (let val = loop.start; val <= loop.end; val += loop.step)\<close>, entered with
  the counter \<open>iterations\<close> and the value \<open>val\<close>.
\<close>

function for_loop ::
  "('n, 'g) host \<Rightarrow> 'g \<Rightarrow> nat \<Rightarrow> 'n ForLoop \<Rightarrow> (string \<times> nat) list \<Rightarrow> nat \<Rightarrow> nat \<Rightarrow> 'n
     \<Rightarrow> 'n ParserState \<Rightarrow> 'n ParserState" where
  "for_loop h g depth loop bodyLines originalLineNumber iterations val state =
     (if hLessEq h val (loop_end loop)
      then (if iterations + 1 > MAX_LOOP_ITERATIONS
            then addError state originalLineNumber (loop_overflow_message h loop val)
            else for_loop h g depth loop bodyLines originalLineNumber (iterations + 1)
                   (hAdd h val (loop_step loop))
                   (run_body h g depth bodyLines [(loop_variable loop, Num val)] state))
      else state)"
  by pat_completeness auto
termination
  by (relation "measure (\<lambda>(h, g, depth, loop, bodyLines, originalLineNumber, iterations, val, state).
        MAX_LOOP_ITERATIONS + 1 - iterations)") auto

text \<open>The loop over the lines of the script, from a line on.\<close>

function parse_lines ::
  "('n, 'g) host \<Rightarrow> 'g \<Rightarrow> nat \<Rightarrow> (string \<times> nat) list \<Rightarrow> 'n ParserState \<Rightarrow> 'n ParserState" where
  "parse_lines h g depth [] state = state"
| "parse_lines h g depth (l # ls) state =
     (let line = clean_line (fst l);
          originalLineNumber = snd l
      in if line = [] \<or> startsWith (toUpperCase line) ''REM'' then parse_lines h g depth ls state
         else
           (let command = toUpperCase (first_piece CHR '' '' line)
            in if command = ''FOR'' then
                 (case parseFor h line state originalLineNumber of
                    (None, state') \<Rightarrow> parse_lines h g depth ls state'
                  | (Some loop, state') \<Rightarrow>
                      (case scan_body (loop_variable loop) ls of
                         Some (bodyLines, rest) \<Rightarrow>
                           parse_lines h g depth rest
                             (for_loop h g depth loop bodyLines originalLineNumber 0
                                (loop_start loop) state')
                       | None \<Rightarrow>
                           parse_lines h g depth ls
                             (addError state' originalLineNumber
                                (''Missing NEXT '' @ loop_variable loop))))
               else if command = ''SET'' then
                 (let subCommand = map_option toUpperCase (at_index (split_ws line) 1)
                  in parse_lines h g depth ls
                       (if subCommand = Some ''VIEW'' then parseSetView h line state originalLineNumber
                        else if subCommand = Some ''GRID'' then parseSetGrid line state originalLineNumber
                        else if subCommand = Some ''AXES'' then parseSetAxes line state originalLineNumber
                        else state))
               else parse_lines h g depth ls
                      (processLine h g depth line originalLineNumber state [])))"
  by pat_completeness auto
termination
proof -
  have shorter: "scan_body v ls = Some (bodyLines, rest) \<Longrightarrow> length rest < Suc (length ls)"
    for v ls bodyLines rest
    by (induction ls arbitrary: bodyLines rest)
       (auto simp: Let_def split: if_splits option.splits)
  show ?thesis
    by (relation "measure (\<lambda>(h, g, depth, ls, state). length ls)")
       (auto dest: shorter)
qed

text \<open>
  \<^verbatim>\<open>parseG3D\<close>. No statement of the \<^verbatim>\<open>try\<close> block of its loop throws outside a handler of
  the statement parsers, so the handler of the loop has no branch here. \<open>depth\<close> is the
  depth of the stack of the host, \<open>g\<close> its ambient state.
\<close>

definition script_too_large :: string where
  "script_too_large =
     ''Script too large. Maximum size is '' @ show_nat MAX_SCRIPT_SIZE @ '' characters.''"

definition number_lines :: "string list \<Rightarrow> (string \<times> nat) list" where
  "number_lines ls = zip ls (map Suc [0..<length ls])"

definition parseG3D :: "('n, 'g) host \<Rightarrow> 'g \<Rightarrow> nat \<Rightarrow> string \<Rightarrow> 'n Scene" where
  "parseG3D h g depth script =
     (if length script > MAX_SCRIPT_SIZE
      then \<lparr>scene_commands = [],
            scene_errors = Some [\<lparr>err_line = 1, err_message = script_too_large\<rparr>]\<rparr>
      else
        (let state = parse_lines h g depth (number_lines (split_char (CHR 0x0A) script))
                       (new_ParserState h)
         in \<lparr>scene_commands = commands state,
              scene_errors = (if length (errors state) > 0 then Some (errors state) else None)\<rparr>))"

subsection \<open>A host for evaluation\<close>

text \<open>
  A small host on which the parser can be run: numbers are exact decimal fractions (in
  place of doubles) and \<open>NaN\<close>; the \<^verbatim>\<open>Function\<close> constructor accepts a body \<^verbatim>\<open>return e\<close>
  where \<open>e\<close> is built from decimal literals, identifiers, parentheses and \<^verbatim>\<open>+\<close>. As in the
  host proper, an identifier that is not a parameter is looked up in the global object,
  which is the ambient state of this host. The parser of the expressions recurses on a
  list that is longer than the number of calls the body can need.
\<close>

datatype dnum = Fin rat | NaN

definition demo_parseFloat :: "string \<Rightarrow> dnum" where
  "demo_parseFloat s =
     (let t = dropWhile is_space s;
          negative = (take 1 t = ''-'');
          u = (if take 1 t = ''-'' \<or> take 1 t = ''+'' then drop 1 t else t);
          ip = takeWhile is_digit u;
          v = dropWhile is_digit u;
          fp = (if take 1 v = ''.'' then takeWhile is_digit (drop 1 v) else []);
          w = (if take 1 v = ''.'' then dropWhile is_digit (drop 1 v) else v);
          x = drop 1 w;
          ed = takeWhile is_digit (if take 1 x = ''-'' \<or> take 1 x = ''+'' then drop 1 x else x);
          mantissa = of_nat (nat_of_digits ip) + of_nat (nat_of_digits fp) / 10 ^ length fp;
          scaled = (if (take 1 w = ''e'' \<or> take 1 w = ''E'') \<and> ed \<noteq> []
                    then (if take 1 x = ''-'' then mantissa / 10 ^ nat_of_digits ed
                          else mantissa * 10 ^ nat_of_digits ed)
                    else mantissa)
      in if ip = [] \<and> fp = [] then NaN else Fin (if negative then - scaled else scaled))"

definition to_fixed :: "rat \<Rightarrow> nat \<Rightarrow> string" where
  "to_fixed r d =
     (let scaled = nat \<lfloor>\<bar>r\<bar> * 10 ^ d + 1 / 2\<rfloor>;
          fs = show_nat (scaled mod 10 ^ d)
      in (if r < 0 then ''-'' else [])
         @ show_nat (scaled div 10 ^ d)
         @ (if d = 0 then [] else ''.'' @ replicate (d - length fs) (CHR ''0'') @ fs))"

definition demo_toFixed :: "dnum \<Rightarrow> nat \<Rightarrow> string" where
  "demo_toFixed n d = (case n of Fin r \<Rightarrow> to_fixed r d | NaN \<Rightarrow> ''NaN'')"

definition demo_numberToString :: "dnum \<Rightarrow> string" where
  "demo_numberToString n =
     (case n of
        NaN \<Rightarrow> ''NaN''
      | Fin r \<Rightarrow>
          (case find (\<lambda>d. of_int \<lfloor>r * 10 ^ d\<rfloor> = r * 10 ^ d) [0..<21] of
             Some d \<Rightarrow> to_fixed r d
           | None \<Rightarrow> to_fixed r 17))"

definition demo_add :: "dnum \<Rightarrow> dnum \<Rightarrow> dnum" where
  "demo_add a b = (case (a, b) of (Fin x, Fin y) \<Rightarrow> Fin (x + y) | _ \<Rightarrow> NaN)"

definition demo_lessEq :: "dnum \<Rightarrow> dnum \<Rightarrow> bool" where
  "demo_lessEq a b = (case (a, b) of (Fin x, Fin y) \<Rightarrow> x \<le> y | _ \<Rightarrow> False)"

definition demo_divide :: "dnum \<Rightarrow> dnum \<Rightarrow> dnum" where
  "demo_divide a b = (case (a, b) of (Fin x, Fin y) \<Rightarrow> if y = 0 then NaN else Fin (x / y) | _ \<Rightarrow> NaN)"

definition demo_String :: "dnum jsval \<Rightarrow> string + string" where
  "demo_String v =
     (case v of
        Num n \<Rightarrow> Inr (demo_numberToString n)
      | Str s \<Rightarrow> Inr s
      | Bool b \<Rightarrow> Inr (if b then ''true'' else ''false'')
      | Undefined \<Rightarrow> Inr ''undefined''
      | Builtin name \<Rightarrow> Inr (''function '' @ name @ ''() { [native code] }'')
      | Closure c \<Rightarrow> Inr ''function''
      | Object i \<Rightarrow> Inr ''[object Object]'')"

datatype dexpr = DNum dnum | DVar string | DAdd dexpr dexpr

definition unexpected :: "string \<Rightarrow> string + 'a" where
  "unexpected s = (case s of [] \<Rightarrow> Inl ''Unexpected end of input''
                   | c # _ \<Rightarrow> Inl (''Unexpected token '' @ [c]))"

fun demo_atom :: "string \<Rightarrow> string \<Rightarrow> string + (dexpr \<times> string)"
  and demo_sum :: "string \<Rightarrow> string \<Rightarrow> string + (dexpr \<times> string)"
  and demo_more :: "string \<Rightarrow> dexpr \<Rightarrow> string \<Rightarrow> string + (dexpr \<times> string)" where
  "demo_atom [] s = Inl ''Maximum call stack size exceeded''"
| "demo_atom (f # n) s =
     (let t = dropWhile is_space s
      in case t of
           [] \<Rightarrow> unexpected t
         | c # cs \<Rightarrow>
             if c = CHR ''('' then
               (case demo_sum n cs of
                  Inl e \<Rightarrow> Inl e
                | Inr (e, r) \<Rightarrow>
                    (case dropWhile is_space r of
                       [] \<Rightarrow> unexpected []
                     | d # r' \<Rightarrow> if d = CHR '')'' then Inr (e, r') else unexpected (d # r')))
             else if is_digit c then
               (let lit = takeWhile (\<lambda>c. is_digit c \<or> c = CHR ''.'') t
                in Inr (DNum (demo_parseFloat lit), drop (length lit) t))
             else if is_upper c \<or> is_lower c \<or> c = CHR ''_'' then
               (let name = takeWhile is_word t in Inr (DVar name, drop (length name) t))
             else unexpected t)"
| "demo_sum [] s = Inl ''Maximum call stack size exceeded''"
| "demo_sum (f # n) s =
     (case demo_atom n s of Inl e \<Rightarrow> Inl e | Inr (e, r) \<Rightarrow> demo_more n e r)"
| "demo_more [] e s = Inl ''Maximum call stack size exceeded''"
| "demo_more (f # n) e s =
     (case dropWhile is_space s of
        [] \<Rightarrow> Inr (e, [])
      | c # cs \<Rightarrow>
          if c = CHR ''+'' then
            (case demo_atom n cs of Inl x \<Rightarrow> Inl x | Inr (e', r) \<Rightarrow> demo_more n (DAdd e e') r)
          else Inr (e, c # cs))"

fun demo_eval :: "(string \<Rightarrow> dnum jsval option) \<Rightarrow> dexpr \<Rightarrow> string + dnum jsval" where
  "demo_eval env (DNum n) = Inr (Num n)"
| "demo_eval env (DVar name) =
     (case env name of Some v \<Rightarrow> Inr v | None \<Rightarrow> Inl (name @ '' is not defined''))"
| "demo_eval env (DAdd a b) =
     (case demo_eval env a of
        Inl e \<Rightarrow> Inl e
      | Inr x \<Rightarrow>
          (case demo_eval env b of
             Inl e \<Rightarrow> Inl e
           | Inr y \<Rightarrow>
               (case (x, y) of
                  (Num m, Num n) \<Rightarrow> Inr (Num (demo_add m n))
                | (Str s, Str t) \<Rightarrow> Inr (Str (s @ t))
                | _ \<Rightarrow> Inl ''unsupported operands'')))"

definition is_identifier :: "string \<Rightarrow> bool" where
  "is_identifier name = (name \<noteq> [] \<and> list_all is_word name \<and> \<not> is_digit (hd name))"

definition demo_Function ::
  "dnum jsval object \<Rightarrow> (closure \<Rightarrow> dnum jsval list \<Rightarrow> string + dnum jsval)
     \<Rightarrow> string list \<Rightarrow> string \<Rightarrow> dnum jsval list \<Rightarrow> string + dnum jsval" where
  "demo_Function g invoke names body values =
     (if \<not> list_all is_identifier names then Inl ''Invalid or unexpected token''
      else if \<not> startsWith body ''return '' then unexpected body
      else case demo_sum (body @ body) (drop 7 body) of
             Inl e \<Rightarrow> Inl e
           | Inr (e, r) \<Rightarrow>
               if dropWhile is_space r \<noteq> [] then unexpected (dropWhile is_space r)
               else demo_eval (\<lambda>name. case map_of (zip names values) name of
                                          Some v \<Rightarrow> Some v
                                        | None \<Rightarrow> map_of g name) e)"

definition demo_host :: "(dnum, dnum jsval object) host" where
  "demo_host =
     \<lparr>hFunction = demo_Function,
      hIsFinite = (\<lambda>n. n \<noteq> NaN),
      hNumber = (\<lambda>k. Fin (of_nat k)),
      hParseFloat = demo_parseFloat,
      hAdd = demo_add,
      hLessEq = demo_lessEq,
      hDivide = demo_divide,
      hToFixed = demo_toFixed,
      hNumberToString = demo_numberToString,
      hString = demo_String,
      hNoMethod = (\<lambda>v. ''v.toFixed is not a function''),
      hPI = Fin (3141592653589793 / 10 ^ 15),
      hE = Fin (2718281828459045 / 10 ^ 15)\<rparr>"

subsection \<open>Notions of the specification\<close>

text \<open>An \<^verbatim>\<open>UnsafeExpression\<close> error: the expression fails the allow-list or the deny-list.\<close>

definition UnsafeExpression :: "string \<Rightarrow> bool" where
  "UnsafeExpression msg =
     (msg = invalid_characters \<or> msg \<in> forbidden_keyword ` set FORBIDDEN_KEYWORDS)"


text \<open>
  The value of the loop variable at the start of iteration \<open>k\<close> (counted from 0), and the
  state of the parser after the first \<open>k\<close> iterations of the body.
\<close>

primrec loop_value :: "('n, 'g) host \<Rightarrow> 'n ForLoop \<Rightarrow> nat \<Rightarrow> 'n" where
  "loop_value h loop 0 = loop_start loop"
| "loop_value h loop (Suc k) = hAdd h (loop_value h loop k) (loop_step loop)"

primrec after_iterations ::
  "('n, 'g) host \<Rightarrow> 'g \<Rightarrow> nat \<Rightarrow> 'n ForLoop \<Rightarrow> (string \<times> nat) list \<Rightarrow> nat
     \<Rightarrow> 'n ParserState \<Rightarrow> 'n ParserState" where
  "after_iterations h g depth loop bodyLines 0 state = state"
| "after_iterations h g depth loop bodyLines (Suc k) state =
     run_body h g depth bodyLines [(loop_variable loop, Num (loop_value h loop k))]
       (after_iterations h g depth loop bodyLines k state)"

text \<open>No error of the state is the error of the size cap.\<close>

definition no_size_error :: "'n ParserState \<Rightarrow> bool" where
  "no_size_error state = (script_too_large \<notin> err_message ` set (errors state))"

text \<open>The errors of a result, none when the field is absent.\<close>

definition error_list :: "'n Scene \<Rightarrow> G3DError list" where
  "error_list scene = (case scene_errors scene of None \<Rightarrow> [] | Some es \<Rightarrow> es)"

subsection \<open>The scripts of the examples\<close>

text \<open>The state after \<^verbatim>\<open>DEF FNZ(X,Y) = X+Y\<close> followed by \<^verbatim>\<open>FNZ = FNZ + 1\<close>.\<close>

definition fnz_state :: "dnum ParserState" where
  "fnz_state =
     parse_lines demo_host [] 0 (number_lines [''DEF FNZ(X,Y) = X+Y'', ''FNZ = FNZ + 1''])
       (new_ParserState demo_host)"

text \<open>A loop of 10001 iterations, with one point per iteration.\<close>

definition long_loop_script :: string where
  "long_loop_script =
     ''FOR T=0 TO 1 STEP 0.0001'' @ [CHR 0x0A]
     @ ''PLOT POINT3D T,0,0 COLOR 255,0,0 SIZE 1'' @ [CHR 0x0A]
     @ ''NEXT T''"

definition long_loop_point :: "nat \<Rightarrow> dnum command" where
  "long_loop_point k =
     PLOT_POINT3D (Point (Num (Fin (of_nat k / 10000))) (Num (Fin 0)) (Num (Fin 0)))
       (Color (Fin 1) (Fin 0) (Fin 0)) (Fin 1) 2"

section \<open>Properties\<close>

declare for_loop.simps [simp del]

declare re_match.simps [simp del]

subsection \<open>Unfolding the definitions on concrete input\<close>

lemmas char_defs = code_def is_space_def is_digit_def is_upper_def is_lower_def is_word_def
  is_latin1_upper_def is_latin1_lower_def is_letter_def is_number_def with_bit5_def
  lower_char_def upper_char_def canonicalize_def char_eq_def class_match_def line_terminator_def

lemmas string_defs = toUpperCase_def toLowerCase_def trim_def startsWith_def first_piece_def
  split_ws_def at_index_def matches_at_def

lemmas regex_defs = cat_def word_def sp0_def sp1_def fn_name_def signed_number_def digits_def
  unsigned_number_def float_number_def one_char_def progress_def capture_def group_def
  re_match.simps

lemmas line_defs = clean_line_def strip_label_def number_lines_def

lemmas object_defs = Object_keys_def Object_values_def object_entries_def is_array_index_def
  nat_of_digits_def spread_def bind_args_def
lemmas evaluator_defs = securelyEvaluate_def SAFE_EXPRESSION_REGEX_test_def safe_char_def
  FORBIDDEN_KEYWORDS_def jsifyExpression_def
lemmas demo_defs = demo_host_def demo_Function_def is_identifier_def demo_add_def unexpected_def

lemma demo_parseFloat_values:
  "demo_parseFloat ''0'' = Fin 0" "demo_parseFloat ''1'' = Fin 1" "demo_parseFloat ''2'' = Fin 2"
  "demo_parseFloat ''3'' = Fin 3" "demo_parseFloat ''0.5'' = Fin (1 / 2)"
  "demo_parseFloat ''255'' = Fin 255" "demo_parseFloat ''0.0001'' = Fin (1 / 10000)"
  by (simp_all add: demo_parseFloat_def Let_def nat_of_digits_def char_defs)

lemma number_lines_values:
  "number_lines [a] = [(a, 1)]"
  "number_lines [a, b] = [(a, 1), (b, 2)]"
  "number_lines [a, b, c] = [(a, 1), (b, 2), (c, 3)]"
  by (simp_all add: number_lines_def)

subsection \<open>Strings\<close>

lemma includes_str_prefix: "includes_str (k @ b) k"
proof (cases "k @ b")
  case Nil
  then show ?thesis by simp
next
  case (Cons c cs)
  have "startsWith (k @ b) k" by (simp add: startsWith_def)
  then show ?thesis using Cons by simp
qed

lemma includes_str_append: "includes_str (a @ k @ b) k"
  by (induction a) (auto simp: includes_str_prefix)

lemma toLowerCase_append: "toLowerCase (a @ b) = toLowerCase a @ toLowerCase b"
  by (simp add: toLowerCase_def)

lemma find_in_set: "find P xs = Some x \<Longrightarrow> x \<in> set xs"
  by (induction xs) (auto split: if_splits)

subsection \<open>The messages of the errors\<close>

lemma script_too_large_eq: "script_too_large = ''Script too large. Maximum size is 50000 characters.''"
  by (simp add: script_too_large_def show_nat_def MAX_SCRIPT_SIZE_def digits_of.simps)

lemma show_max_loop: "show_nat MAX_LOOP_ITERATIONS = ''10000''"
  by (simp add: show_nat_def MAX_LOOP_ITERATIONS_def digits_of.simps)

lemma no_size_error_addError:
  "no_size_error (addError state n msg) = (no_size_error state \<and> msg \<noteq> script_too_large)"
  by (auto simp: no_size_error_def addError_def)

lemma no_size_error_push_command: "no_size_error (push_command state c) = no_size_error state"
  by (simp add: no_size_error_def push_command_def)

lemma no_size_error_define_function:
  "no_size_error (define_function state f args body) = no_size_error state"
  by (simp add: no_size_error_def define_function_def)

lemmas no_size_error_simps =
  no_size_error_addError no_size_error_push_command no_size_error_define_function script_too_large_eq

lemma evaluate_message: "evaluate h g depth funcs e ctx = Inl msg \<Longrightarrow> msg \<noteq> script_too_large"
  by (auto simp: evaluate_def securelyEvaluate_def invalid_characters_def forbidden_keyword_def
      failed_to_evaluate_def Let_def script_too_large_eq
      split: if_splits option.splits sum.splits jsval.splits)

lemma nse_parseFunctionDefinition:
  "no_size_error state \<Longrightarrow> no_size_error (parseFunctionDefinition line state n)"
  by (simp add: parseFunctionDefinition_def Let_def no_size_error_simps split: option.splits)

lemma nse_parsePlot3D: "no_size_error state \<Longrightarrow> no_size_error (parsePlot3D line state n)"
  by (simp add: parsePlot3D_def Let_def no_size_error_simps split: option.splits)

lemma nse_parseCircle3D: "no_size_error state \<Longrightarrow> no_size_error (parseCircle3D h line state n)"
  by (simp add: parseCircle3D_def Let_def no_size_error_simps split: option.splits)

lemma nse_parseSetView: "no_size_error state \<Longrightarrow> no_size_error (parseSetView h line state n)"
  by (simp add: parseSetView_def no_size_error_simps split: option.splits)

lemma nse_parseSetGrid: "no_size_error state \<Longrightarrow> no_size_error (parseSetGrid line state n)"
  by (simp add: parseSetGrid_def no_size_error_simps split: option.splits)

lemma nse_parseSetAxes: "no_size_error state \<Longrightarrow> no_size_error (parseSetAxes line state n)"
  by (simp add: parseSetAxes_def no_size_error_simps split: option.splits)

lemma nse_parseFor:
  "no_size_error state \<Longrightarrow> no_size_error (snd (parseFor h line state n))"
  by (simp add: parseFor_def no_size_error_simps split: option.splits)

lemma nse_parseText:
  assumes "no_size_error state" and "\<And>v. hString h v \<noteq> Inl script_too_large"
  shows "no_size_error (parseText h g depth line state n scope)"
proof -
  have s: "String_of h v = Inl e \<Longrightarrow> e \<noteq> script_too_large" for v e
    using assms(2)[of v] by (auto simp: String_of_def split: jsval.splits)
  show ?thesis
    using assms(1)
    by (auto simp: parseText_def Let_def no_size_error_simps
        dest: evaluate_message s split: option.splits sum.splits)
qed

lemma nse_parsePlotPoint3D:
  "no_size_error state \<Longrightarrow> no_size_error (parsePlotPoint3D h g depth line state n scope)"
  by (auto simp: parsePlotPoint3D_def Let_def no_size_error_simps
      dest: evaluate_message split: option.splits sum.splits)

lemma nse_processLine:
  assumes "no_size_error state" and "\<And>v. hString h v \<noteq> Inl script_too_large"
  shows "no_size_error (processLine h g depth line n state scope)"
  using assms
  by (auto simp: processLine_def Let_def no_size_error_addError
      intro: nse_parseFunctionDefinition nse_parsePlot3D nse_parseCircle3D nse_parseText nse_parsePlotPoint3D
      dest: evaluate_message split: option.splits sum.splits)

lemma nse_run_body:
  assumes "\<And>v. hString h v \<noteq> Inl script_too_large"
  shows "no_size_error state \<Longrightarrow> no_size_error (run_body h g depth bodyLines scope state)"
  unfolding run_body_def
proof (induction bodyLines arbitrary: state)
  case Nil
  then show ?case by simp
next
  case (Cons l ls)
  have "no_size_error (if fst l \<noteq> [] then processLine h g depth (fst l) (snd l) state scope else state)"
    using Cons.prems by (simp add: nse_processLine assms)
  from Cons.IH[OF this] show ?case by simp
qed

lemma nse_for_loop:
  assumes host: "\<And>v. hString h v \<noteq> Inl script_too_large"
  shows "no_size_error state \<Longrightarrow> no_size_error (for_loop h g depth loop bodyLines n i val state)"
proof (induction "MAX_LOOP_ITERATIONS + 1 - i" arbitrary: i val state rule: less_induct)
  case less
  show ?case
  proof (cases "hLessEq h val (loop_end loop) \<and> \<not> MAX_LOOP_ITERATIONS < i + 1")
    case True
    have "no_size_error (run_body h g depth bodyLines [(loop_variable loop, Num val)] state)"
      using less.prems by (rule nse_run_body[OF host])
    then have "no_size_error (for_loop h g depth loop bodyLines n (i + 1) (hAdd h val (loop_step loop))
        (run_body h g depth bodyLines [(loop_variable loop, Num val)] state))"
      using True by (intro less.hyps) auto
    then show ?thesis using True by (subst for_loop.simps) simp
  next
    case False
    then show ?thesis using less.prems
      by (subst for_loop.simps)
         (auto simp: no_size_error_addError script_too_large_eq loop_overflow_message_def)
  qed
qed

lemma scan_body_shorter:
  "scan_body v ls = Some (bodyLines, rest) \<Longrightarrow> length rest \<le> length ls"
  by (induction ls arbitrary: bodyLines rest)
     (auto simp: Let_def split: if_splits option.splits)

lemma parseFor_state: "parseFor h line state n = (Some loop, state') \<Longrightarrow> state' = state"
  by (auto simp: parseFor_def split: option.splits)

lemma nse_parseFor_result:
  "parseFor h line state n = (r, state') \<Longrightarrow> no_size_error state \<Longrightarrow> no_size_error state'"
  by (auto simp: parseFor_def no_size_error_simps split: option.splits)

lemma nse_parse_lines:
  assumes host: "\<And>v. hString h v \<noteq> Inl script_too_large"
  shows "no_size_error state \<Longrightarrow> no_size_error (parse_lines h g depth ls state)"
proof (induction "length ls" arbitrary: ls state rule: less_induct)
  case less
  show ?case
  proof (cases ls)
    case Nil
    then show ?thesis using less.prems by simp
  next
    case (Cons l ls')
    have IH: "no_size_error (parse_lines h g depth rest st)"
      if "length rest \<le> length ls'" "no_size_error st" for rest st
      using less.hyps[of rest st] that Cons by simp
    have st: "no_size_error state" by (rule less.prems)
    show ?thesis
      unfolding Cons parse_lines.simps Let_def
      by (auto intro!: IH nse_for_loop nse_parseSetView nse_parseSetGrid nse_parseSetAxes
            nse_processLine host st
          simp: no_size_error_addError script_too_large_eq
          dest: scan_body_shorter parseFor_state nse_parseFor_result[OF _ st]
          split: option.splits prod.splits)
  qed
qed

subsection \<open>Purity of the evaluation (C1)\<close>

text \<open>
  The expression \<^verbatim>\<open>innerWidth\<close> passes the allow-list and the deny-list, and reaches
  the \<^verbatim>\<open>Function\<close> constructor of the host as it is, with no parameter when the context
  is empty.
\<close>

lemma innerWidth_reaches_host:
  "securelyEvaluate h g invoke ''innerWidth'' [] =
     (case hFunction h g invoke [] ''return innerWidth'' [] of
        Inl e \<Rightarrow> Inl (failed_to_evaluate ''innerWidth'' e)
      | Inr result \<Rightarrow>
          (case result of
             Num n \<Rightarrow> if hIsFinite h n then Inr result else Inr (Num (hNumber h 0))
           | _ \<Rightarrow> Inr result))"
  by (simp add: evaluator_defs object_defs string_defs char_defs split: sum.splits jsval.splits)

lemma demo_innerWidth:
  "hFunction demo_host [(''innerWidth'', v)] invoke [] ''return innerWidth'' [] = Inr v"
  by (simp add: demo_defs string_defs char_defs)

text \<open>
  C1. The claim fails on the code: on a host that resolves a free identifier in its global
  object, as \<^verbatim>\<open>new Function\<close> does, the same expression over the same (empty) context
  evaluates to whatever the ambient state holds.
\<close>

theorem securelyEvaluate_reads_global:
  "securelyEvaluate demo_host [(''innerWidth'', Num (Fin 800))] invoke ''innerWidth'' []
     = Inr (Num (Fin 800))
   \<and> securelyEvaluate demo_host [(''innerWidth'', Num (Fin 1024))] invoke ''innerWidth'' []
     = Inr (Num (Fin 1024))"
  by (simp add: innerWidth_reaches_host demo_innerWidth) (simp add: demo_host_def)

subsection \<open>The translation of the operators (C4)\<close>

text \<open>
  C4. The claim fails on the code: \<^verbatim>\<open>jsifyExpression\<close> doubles every \<^verbatim>\<open>=\<close>, also the one
  of \<^verbatim>\<open><=\<close> and of \<^verbatim>\<open>>=\<close>, and it replaces \<^verbatim>\<open>OR\<close> and \<^verbatim>\<open>AND\<close> inside a name as well.
\<close>

theorem jsifyExpression_doubles_every_equals:
  "jsifyExpression ''1<=2'' = ''1<==2'' \<and> jsifyExpression ''X>=Y'' = ''X>==Y''
   \<and> jsifyExpression ''FLOOR(2.5)'' = ''FLO||(2.5)''"
  by (simp add: jsifyExpression_def string_defs char_defs)

subsection \<open>The deny-list (C7)\<close>

text \<open>
  C7. An expression that contains a token of the deny-list in any letter case, anywhere,
  is rejected: whatever stands before and after the token, \<^verbatim>\<open>securelyEvaluate\<close> throws
  either the error of the allow-list or the error of the deny-list, and the host is not
  asked to evaluate anything. \<^verbatim>\<open>window\<close> is the first token of the list.
\<close>

theorem deny_list_rejects:
  assumes "keyword \<in> set FORBIDDEN_KEYWORDS" and "toLowerCase w = keyword"
  shows "\<exists>msg. securelyEvaluate h g invoke (a @ w @ b) context = Inl msg \<and> UnsafeExpression msg"
proof (cases "SAFE_EXPRESSION_REGEX_test (a @ w @ b)")
  case False
  then show ?thesis by (simp add: securelyEvaluate_def UnsafeExpression_def)
next
  case True
  have "includes_str (toLowerCase a @ keyword @ toLowerCase b) keyword"
    by (rule includes_str_append)
  then have "includes_str (toLowerCase (a @ w @ b)) keyword"
    using assms(2) by (simp only: toLowerCase_append)
  with assms(1) have "find (includes_str (toLowerCase (a @ w @ b))) FORBIDDEN_KEYWORDS \<noteq> None"
    by (auto simp: find_None_iff)
  then obtain k' where k': "find (includes_str (toLowerCase (a @ w @ b))) FORBIDDEN_KEYWORDS = Some k'"
    by auto
  then have "k' \<in> set FORBIDDEN_KEYWORDS" by (rule find_in_set)
  with True k' show ?thesis by (simp add: securelyEvaluate_def UnsafeExpression_def)
qed

theorem deny_list_rejects_witness:
  "\<exists>msg. securelyEvaluate demo_host [] (call_closure demo_host [] [] 0)
            (''1+'' @ ''WinDow'' @ ''.x'') [] = Inl msg
     \<and> UnsafeExpression msg"
  by (rule deny_list_rejects[where keyword = "''window''"])
     (simp_all add: FORBIDDEN_KEYWORDS_def toLowerCase_def char_defs)

subsection \<open>The size cap (C6)\<close>

text \<open>
  C6. A script longer than \<^verbatim>\<open>MAX_SCRIPT_SIZE\<close> gives the one error of the size cap and no
  command, whatever the host is (no line is processed); for a script at or under the cap
  no error of the result is that error. The second part is about a host whose \<^verbatim>\<open>String\<close>
  conversion throws no error with the very message of the size cap.
\<close>

theorem size_cap:
  assumes "\<And>v. hString h v \<noteq> Inl script_too_large"
  shows "(MAX_SCRIPT_SIZE < length script \<longrightarrow>
            parseG3D h g depth script =
              \<lparr>scene_commands = [],
               scene_errors = Some [\<lparr>err_line = 1, err_message = script_too_large\<rparr>]\<rparr>)
       \<and> (length script \<le> MAX_SCRIPT_SIZE \<longrightarrow>
            script_too_large \<notin> err_message ` set (error_list (parseG3D h g depth script)))"
proof -
  have "no_size_error (new_ParserState h :: 'a ParserState)"
    by (simp add: no_size_error_def new_ParserState_def)
  then have "no_size_error
      (parse_lines h g depth (number_lines (split_char (CHR 0x0A) script)) (new_ParserState h))"
    by (rule nse_parse_lines[OF assms])
  then show ?thesis
    by (simp add: parseG3D_def Let_def error_list_def no_size_error_def)
qed

lemma demo_String_total: "hString demo_host v \<noteq> Inl script_too_large"
  by (simp add: demo_host_def demo_String_def split: jsval.splits)

theorem size_cap_witness:
  "parseG3D demo_host [] 0 (replicate 50001 (CHR ''x'')) =
     \<lparr>scene_commands = [],
      scene_errors = Some [\<lparr>err_line = 1, err_message = script_too_large\<rparr>]\<rparr>
   \<and> script_too_large
       \<notin> err_message ` set (error_list (parseG3D demo_host [] 0 (replicate 50000 (CHR ''x''))))"
  using size_cap[OF demo_String_total, of "replicate 50001 (CHR ''x'')" "[]" 0]
    size_cap[OF demo_String_total, of "replicate 50000 (CHR ''x'')" "[]" 0]
  by (simp add: MAX_SCRIPT_SIZE_def)

subsection \<open>The parse returns (C9)\<close>



subsection \<open>The field of the errors (C10)\<close>


subsection \<open>Unrecognized keywords (C2)\<close>




subsection \<open>A loop without its end (C3)\<close>

lemma scan_body_None:
  "(scan_body v ls = None) = (\<forall>l \<in> set ls. toUpperCase (clean_line (fst l)) \<noteq> ''NEXT '' @ v)"
  by (induction ls) (auto simp: Let_def split: option.splits)

text \<open>
  C3, as amended. A \<^verbatim>\<open>FOR\<close> line that \<^verbatim>\<open>parseFor\<close> accepts and that no \<^verbatim>\<open>NEXT\<close> line for its
  variable follows records exactly one error, \<^verbatim>\<open>Missing NEXT\<close>, for its line, and runs no
  iteration; the parse then continues with the line after the \<^verbatim>\<open>FOR\<close> line, as with any
  other statement of the script.
\<close>

theorem missing_next:
  assumes "line = clean_line (fst l)"
    and "line \<noteq> []"
    and "\<not> startsWith (toUpperCase line) ''REM''"
    and "toUpperCase (first_piece CHR '' '' line) = ''FOR''"
    and "fst (parseFor h line state (snd l)) = Some loop"
    and "\<forall>l' \<in> set ls. toUpperCase (clean_line (fst l')) \<noteq> ''NEXT '' @ loop_variable loop"
  shows "parse_lines h g depth (l # ls) state =
           parse_lines h g depth ls (addError state (snd l) (''Missing NEXT '' @ loop_variable loop))"
proof -
  obtain state' where pf: "parseFor h line state (snd l) = (Some loop, state')"
    using assms(5) by (cases "parseFor h line state (snd l)") auto
  then have "state' = state" by (rule parseFor_state)
  moreover have "scan_body (loop_variable loop) ls = None"
    using assms(6) by (simp add: scan_body_None)
  ultimately show ?thesis
    using assms(1-4) pf by (simp add: Let_def)
qed

lemma for_match:
  "\<exists>m. re_match True for_regex ''FOR T=0 TO 1 STEP 1'' = Some m
     \<and> group m 1 = ''T'' \<and> group m 2 = ''0'' \<and> group m 3 = ''1'' \<and> group m 4 = ''1''"
  by (simp add: for_regex_def regex_defs string_defs char_defs)

lemma parseFor_demo:
  "parseFor demo_host ''FOR T=0 TO 1 STEP 1'' state n =
     (Some \<lparr>loop_variable = ''T'', loop_start = Fin 0, loop_end = Fin 1, loop_step = Fin 1\<rparr>, state)"
proof -
  obtain m where "re_match True for_regex ''FOR T=0 TO 1 STEP 1'' = Some m"
     "group m 1 = ''T''" "group m 2 = ''0''" "group m 3 = ''1''" "group m 4 = ''1''"
    using for_match by blast
  then show ?thesis
    by (simp add: parseFor_def demo_host_def demo_parseFloat_values toUpperCase_def char_defs)
qed

lemma circle_match:
  "\<exists>m. re_match True circle3d_regex ''CIRCLE3D 1,2,3 WITH RADIUS 0.5 COLOR 255,0,0'' = Some m
     \<and> group m 1 = ''1'' \<and> group m 2 = ''2'' \<and> group m 3 = ''3'' \<and> group m 4 = ''0.5''
     \<and> group m 5 = ''255'' \<and> group m 6 = ''0'' \<and> group m 7 = ''0''"
  by (simp add: circle3d_regex_def regex_defs string_defs char_defs)

lemma parseCircle3D_demo:
  "parseCircle3D demo_host ''CIRCLE3D 1,2,3 WITH RADIUS 0.5 COLOR 255,0,0'' state n =
     push_command state
       (CIRCLE3D (Point (Fin 1) (Fin 2) (Fin 3)) (Fin (1 / 2)) (Color (Fin 1) (Fin 0) (Fin 0)) n)"
proof -
  obtain m where "re_match True circle3d_regex ''CIRCLE3D 1,2,3 WITH RADIUS 0.5 COLOR 255,0,0'' = Some m"
     "group m 1 = ''1''" "group m 2 = ''2''" "group m 3 = ''3''" "group m 4 = ''0.5''"
     "group m 5 = ''255''" "group m 6 = ''0''" "group m 7 = ''0''"
    using circle_match by blast
  then show ?thesis
    by (simp add: parseCircle3D_def demo_host_def demo_parseFloat_values demo_divide_def)
qed

lemma circle_line:
  "clean_line ''CIRCLE3D 1,2,3 WITH RADIUS 0.5 COLOR 255,0,0'' = ''CIRCLE3D 1,2,3 WITH RADIUS 0.5 COLOR 255,0,0''"
  "toUpperCase ''CIRCLE3D 1,2,3 WITH RADIUS 0.5 COLOR 255,0,0'' = ''CIRCLE3D 1,2,3 WITH RADIUS 0.5 COLOR 255,0,0''"
  "toUpperCase (first_piece CHR '' '' ''CIRCLE3D 1,2,3 WITH RADIUS 0.5 COLOR 255,0,0'') = ''CIRCLE3D''"
  by (simp_all add: line_defs string_defs regex_defs char_defs)

lemma for_line:
  "clean_line ''FOR T=0 TO 1 STEP 1'' = ''FOR T=0 TO 1 STEP 1''"
  "toUpperCase ''FOR T=0 TO 1 STEP 1'' = ''FOR T=0 TO 1 STEP 1''"
  "toUpperCase (first_piece CHR '' '' ''FOR T=0 TO 1 STEP 1'') = ''FOR''"
  by (simp_all add: line_defs string_defs regex_defs char_defs)

lemma c3_lines:
  "split_char (CHR 0x0A)
     (''FOR T=0 TO 1 STEP 1'' @ [CHR 0x0A] @ ''CIRCLE3D 1,2,3 WITH RADIUS 0.5 COLOR 255,0,0'') =
   [''FOR T=0 TO 1 STEP 1'', ''CIRCLE3D 1,2,3 WITH RADIUS 0.5 COLOR 255,0,0'']"
  by simp

lemma c3_processLine:
  "processLine demo_host [] 0 ''CIRCLE3D 1,2,3 WITH RADIUS 0.5 COLOR 255,0,0'' n state [] =
   push_command state
       (CIRCLE3D (Point (Fin 1) (Fin 2) (Fin 3)) (Fin (1 / 2)) (Color (Fin 1) (Fin 0) (Fin 0)) n)"
  by (simp add: processLine_def Let_def circle_line parseCircle3D_demo startsWith_def)

lemma c3_parse_lines:
  "parse_lines demo_host [] 0
     [(''FOR T=0 TO 1 STEP 1'', n), (''CIRCLE3D 1,2,3 WITH RADIUS 0.5 COLOR 255,0,0'', n')] state =
   push_command (addError state n ''Missing NEXT T'')
       (CIRCLE3D (Point (Fin 1) (Fin 2) (Fin 3)) (Fin (1 / 2)) (Color (Fin 1) (Fin 0) (Fin 0)) n')"
  by (simp add: Let_def for_line circle_line parseFor_demo c3_processLine startsWith_def)

theorem missing_next_witness:
  "parse_lines demo_host [] 0
     [(''FOR T=0 TO 1 STEP 1'', 1), (''CIRCLE3D 1,2,3 WITH RADIUS 0.5 COLOR 255,0,0'', 2)]
     (new_ParserState demo_host) =
   parse_lines demo_host [] 0 [(''CIRCLE3D 1,2,3 WITH RADIUS 0.5 COLOR 255,0,0'', 2)]
     (addError (new_ParserState demo_host) 1 ''Missing NEXT T'')"
  using missing_next[where h = demo_host and l = "(''FOR T=0 TO 1 STEP 1'', 1)"
      and line = "''FOR T=0 TO 1 STEP 1''"
      and ls = "[(''CIRCLE3D 1,2,3 WITH RADIUS 0.5 COLOR 255,0,0'', 2)]"
      and state = "new_ParserState demo_host"
      and loop = "\<lparr>loop_variable = ''T'', loop_start = Fin 0, loop_end = Fin 1, loop_step = Fin 1\<rparr>"
      and g = "[]" and depth = 0]
  by (simp add: for_line circle_line parseFor_demo startsWith_def)

text \<open>
  The claim as first stated asks that the lines after such a \<^verbatim>\<open>FOR\<close> line produce no
  command. Here the line after it produces one.
\<close>

theorem missing_next_counterexample:
  "parseG3D demo_host [] 0
     (''FOR T=0 TO 1 STEP 1'' @ [CHR 0x0A] @ ''CIRCLE3D 1,2,3 WITH RADIUS 0.5 COLOR 255,0,0'') =
   \<lparr>scene_commands =
      [CIRCLE3D (Point (Fin 1) (Fin 2) (Fin 3)) (Fin (1 / 2)) (Color (Fin 1) (Fin 0) (Fin 0)) 2],
    scene_errors = Some [\<lparr>err_line = 1, err_message = ''Missing NEXT T''\<rparr>]\<rparr>"
  by (simp add: parseG3D_def MAX_SCRIPT_SIZE_def c3_lines number_lines_values c3_parse_lines Let_def
       new_ParserState_def addError_def push_command_def del: parse_lines.simps)

subsection \<open>The cap on the iterations (C5)\<close>

lemma for_loop_from:
  assumes "\<forall>k \<le> MAX_LOOP_ITERATIONS. hLessEq h (loop_value h loop k) (loop_end loop)"
    and "i \<le> MAX_LOOP_ITERATIONS"
  shows "for_loop h g depth loop bodyLines n i (loop_value h loop i)
           (after_iterations h g depth loop bodyLines i state) =
         addError (after_iterations h g depth loop bodyLines MAX_LOOP_ITERATIONS state) n
           (loop_overflow_message h loop (loop_value h loop MAX_LOOP_ITERATIONS))"
  using assms(2)
proof (induction "MAX_LOOP_ITERATIONS - i" arbitrary: i)
  case 0
  then have i: "i = MAX_LOOP_ITERATIONS" by simp
  have "hLessEq h (loop_value h loop i) (loop_end loop)" using assms(1) i by simp
  then show ?case by (subst for_loop.simps) (simp add: i)
next
  case (Suc d)
  then have i: "i < MAX_LOOP_ITERATIONS" by simp
  have le: "hLessEq h (loop_value h loop i) (loop_end loop)" using assms(1) i by simp
  have "for_loop h g depth loop bodyLines n (Suc i) (loop_value h loop (Suc i))
           (after_iterations h g depth loop bodyLines (Suc i) state) =
         addError (after_iterations h g depth loop bodyLines MAX_LOOP_ITERATIONS state) n
           (loop_overflow_message h loop (loop_value h loop MAX_LOOP_ITERATIONS))"
    using Suc i by (intro Suc.hyps) auto
  then show ?case using le i by (subst for_loop.simps) simp
qed

text \<open>
  C5. When the loop would start more than \<^verbatim>\<open>MAX_LOOP_ITERATIONS\<close> iterations (the loop
  variable is at most the end value at the start of each of the first 10001), the body
  runs exactly \<^verbatim>\<open>MAX_LOOP_ITERATIONS\<close> times and one error is added to the state these
  iterations leave, which keeps all their commands; the error names the value of the
  loop variable then, and the bounds and the step of the loop.
\<close>

theorem loop_overflow:
  assumes "\<forall>k \<le> MAX_LOOP_ITERATIONS. hLessEq h (loop_value h loop k) (loop_end loop)"
  shows "for_loop h g depth loop bodyLines n 0 (loop_start loop) state =
           addError (after_iterations h g depth loop bodyLines MAX_LOOP_ITERATIONS state) n
             (loop_overflow_message h loop (loop_value h loop MAX_LOOP_ITERATIONS))"
  using for_loop_from[OF assms, of 0 g depth bodyLines n state] by simp

subsection \<open>Continuation of a function (C8)\<close>

text \<open>
  C8. A line that is a continuation and not a definition needs a registration of its
  function: without one it records the error of the undefined continuation; with one
  it stores the body \<^verbatim>\<open>(old body) + (extra)\<close> under the old argument names, and registers
  the function that evaluates this body text over \<^verbatim>\<open>state.functions\<close> and the arguments.
\<close>

theorem continuation:
  assumes "re_match True simpleDef_regex line = None"
    and "re_match True continuation_regex line = Some m"
    and "funcName = toUpperCase (group m 1)"
    and "state' = parseFunctionDefinition line state n"
  shows "(map_of (functionBodies state) funcName = None \<longrightarrow>
            state' = addError state n (''Function '' @ funcName @ '' not defined before continuation.''))
       \<and> (\<forall>args body. map_of (functionBodies state) funcName = Some (args, body) \<longrightarrow>
            map_of (functionBodies state') funcName
              = Some (args, ''('' @ body @ '') + ('' @ group m 2 @ '')'')
          \<and> map_of (functions_tab state') funcName
              = Some (Closure (FuncClosure args (''('' @ body @ '') + ('' @ group m 2 @ '')'')))
          \<and> errors state' = errors state \<and> commands state' = commands state
          \<and> (\<forall>h g allFuncs depth argValues.
               call_closure h g allFuncs (Suc depth)
                  (FuncClosure args (''('' @ body @ '') + ('' @ group m 2 @ '')'')) argValues
               = securelyEvaluate h g (call_closure h g allFuncs depth)
                   (''('' @ body @ '') + ('' @ group m 2 @ '')'')
                   (spread allFuncs (bind_args args argValues))))"
  using assms
  by (auto simp: parseFunctionDefinition_def Let_def define_function_def update_Some_unfold)


end
